theory Spec2Isabelle
  imports Complex_Main
begin

section \<open>The annotation state machine of \<^verbatim>\<open>src/App.tsx\<close>\<close>

text \<open>
  The component keeps its state in React hooks and changes it from three pointer
  listeners (\<^verbatim>\<open>mousedown\<close>, \<^verbatim>\<open>mousemove\<close>, \<^verbatim>\<open>mouseup\<close>) and two per-field
  callbacks (\<^verbatim>\<open>onClick\<close>, \<^verbatim>\<open>deleteSelf\<close>). Each listener is modelled as a
  function from the state it closes over to the state after its \<^verbatim>\<open>set...\<close> calls
  have been applied; one event is processed on a settled state, as React re-renders
  and re-installs the listeners between events.

  A JavaScript \<^verbatim>\<open>number\<close> that holds a coordinate is a \<^typ>\<open>real\<close> here (the
  spec's data model says real-valued coordinates); rounding is not modelled.
  A page number is an \<^typ>\<open>int\<close>, an id a \<^typ>\<open>string\<close>, and a value that may be
  \<^verbatim>\<open>null\<close> is an \<^typ>\<open>'a option\<close>.
\<close>

subsection \<open>Data\<close>

text \<open>\<^verbatim>\<open>interface Point { x: number, y: number }\<close>\<close>

record point =
  x :: real
  y :: real

text \<open>\<^verbatim>\<open>interface Box { a: Point, b: Point }\<close>\<close>

record box =
  a :: point
  b :: point

text \<open>
  \<^verbatim>\<open>Field & { selected: boolean }\<close>, the element type of the \<^verbatim>\<open>fields\<close> array.
  The source's field \<^verbatim>\<open>id\<close> is \<open>id_field\<close> here: \<open>id\<close> is HOL's identity function.
\<close>

record field =
  page :: int
  box :: box
  id_field :: string
  selected :: bool

text \<open>
  What the listeners read of a \<^verbatim>\<open>MouseEvent\<close>: \<^verbatim>\<open>ev.target\<close>, which is \<^verbatim>\<open>null\<close> or
  an element of which only the \<^verbatim>\<open>classList\<close> is inspected, and the pointer's
  \<^verbatim>\<open>clientX\<close> and \<^verbatim>\<open>clientY\<close>.
\<close>

record mouse_event =
  target :: "string list option"
  clientX :: real
  clientY :: real

text \<open>
  What \<^verbatim>\<open>mousePositionWithinContainer\<close> reads of the container:
  \<^verbatim>\<open>getBoundingClientRect().left\<close> and \<^verbatim>\<open>.top\<close> at the time of the event
  (\<open>top\<close> alone is HOL's greatest element, hence the prefix).
\<close>

record container =
  rect_left :: real
  rect_top :: real

text \<open>
  The hooks of \<^verbatim>\<open>App\<close> that the listeners read or write: \<^verbatim>\<open>pageNumber\<close>,
  \<^verbatim>\<open>firstPoint\<close>, \<^verbatim>\<open>secondPoint\<close> and \<^verbatim>\<open>fields\<close>. (\<^verbatim>\<open>numPages\<close> and \<^verbatim>\<open>pageRef\<close>
  only serve page navigation and the installation of the listeners.) The hook
  \<^verbatim>\<open>fields\<close> is \<open>fields_st\<close>: the record package reserves \<open>fields\<close>.
\<close>

record app_state =
  pageNumber :: int
  firstPoint :: "point option"
  secondPoint :: "point option"
  fields_st :: "field list"

subsection \<open>Geometry\<close>

text \<open>
  \<^verbatim>\<open>const size = (box) => { const width = Math.abs(box.a.x - box.b.x);
  const height = Math.abs(box.a.y - box.b.y); return width * height; }\<close>
  (\<open>size\<close> is a HOL constant, hence \<open>size_box\<close>).
\<close>

definition size_box :: "box \<Rightarrow> real" where
  "size_box bx =
     (let width = \<bar>x (a bx) - x (b bx)\<bar>;
          height = \<bar>y (a bx) - y (b bx)\<bar>
      in width * height)"

text \<open>\<^verbatim>\<open>const tooSmall = (box) => size(box) < 200\<close>\<close>

definition tooSmall :: "box \<Rightarrow> bool" where
  "tooSmall bx = (size_box bx < 200)"

text \<open>
  \<^verbatim>\<open>mousePositionWithinContainer\<close>: declared \<^verbatim>\<open>Point | null\<close>, it returns a point on
  every path.
\<close>

definition mousePositionWithinContainer :: "mouse_event \<Rightarrow> container \<Rightarrow> point option" where
  "mousePositionWithinContainer ev c =
     (let offsetX = clientX ev - rect_left c;
          offsetY = clientY ev - rect_top c
      in Some \<lparr>x = offsetX, y = offsetY\<rparr>)"

subsection \<open>The field store\<close>

text \<open>
  \<^verbatim>\<open>hasSelectedField\<close>: \<^verbatim>\<open>typeof fields.find((field) => field.selected) !== 'undefined'\<close>.
\<close>

definition hasSelectedField :: "field list \<Rightarrow> bool" where
  "hasSelectedField fs = (find selected fs \<noteq> None)"

text \<open>
  The updater \<^verbatim>\<open>(prevFields) => prevFields.map((prevField) => ({ ...prevField,
  selected: false }))\<close>, written out twice in the source (lines 110 and 133).
\<close>

definition deselectAll :: "field list \<Rightarrow> field list" where
  "deselectAll prevFields = map (\<lambda>prevField. prevField\<lparr>selected := False\<rparr>) prevFields"

text \<open>
  The updater of a rendered field's \<^verbatim>\<open>onClick\<close> (lines 181-184); \<open>fid\<close> is the
  \<^verbatim>\<open>field.id\<close> its closure holds.
\<close>

definition onClick :: "string \<Rightarrow> field list \<Rightarrow> field list" where
  "onClick fid prevFields =
     map (\<lambda>prevField. prevField\<lparr>selected := (id_field prevField = fid)\<rparr>) prevFields"

text \<open>The updater of \<^verbatim>\<open>deleteSelf\<close> (lines 185-187).\<close>

definition deleteSelf :: "string \<Rightarrow> field list \<Rightarrow> field list" where
  "deleteSelf fid prevFields = filter (\<lambda>prevField. id_field prevField \<noteq> fid) prevFields"

text \<open>
  The updater of the commit (lines 98-106): the new field is appended with
  \<^verbatim>\<open>selected: false\<close>. \<open>uid\<close> is the value \<^verbatim>\<open>uuid()\<close> returns at this call.
\<close>

definition appendField :: "int \<Rightarrow> string \<Rightarrow> box \<Rightarrow> field list \<Rightarrow> field list" where
  "appendField pg uid bx prevFields =
     prevFields @ [\<lparr>page = pg, box = bx, id_field = uid, selected = False\<rparr>]"

subsection \<open>The pointer listeners\<close>

text \<open>
  \<^verbatim>\<open>commitNewZone\<close>, the \<^verbatim>\<open>mouseup\<close> listener. Every \<^verbatim>\<open>return\<close> of the source is a
  branch that yields the state as it was; the two \<^verbatim>\<open>set...(null)\<close> calls at the end
  are reached from the commit, from the selection branch with a target, and from
  the branch where nothing is selected.
\<close>

definition commitNewZone :: "app_state \<Rightarrow> mouse_event \<Rightarrow> string \<Rightarrow> app_state" where
  "commitNewZone s ev uid =
     (case secondPoint s of
        None \<Rightarrow> s
      | Some sp \<Rightarrow>
         (case firstPoint s of
            None \<Rightarrow> s
          | Some fp \<Rightarrow>
             if \<not> tooSmall \<lparr>a = fp, b = sp\<rparr> then
               s\<lparr>fields_st := appendField (pageNumber s) uid \<lparr>a = fp, b = sp\<rparr> (fields_st s),
                 firstPoint := None, secondPoint := None\<rparr>
             else if hasSelectedField (fields_st s) then
               (case target ev of
                  None \<Rightarrow> s
                | Some classList \<Rightarrow>
                    if \<not> (''sb'' \<in> set classList) then
                      s\<lparr>fields_st := deselectAll (fields_st s),
                        firstPoint := None, secondPoint := None\<rparr>
                    else s\<lparr>firstPoint := None, secondPoint := None\<rparr>)
             else s\<lparr>firstPoint := None, secondPoint := None\<rparr>))"

text \<open>\<^verbatim>\<open>mouseDownListener\<close>; \<open>c\<close> is \<^verbatim>\<open>pageRef\<close>.\<close>

definition mouseDownListener :: "container \<Rightarrow> app_state \<Rightarrow> mouse_event \<Rightarrow> app_state" where
  "mouseDownListener c s ev =
     (if target ev = None \<or> firstPoint s \<noteq> None then s
      else s\<lparr>firstPoint := mousePositionWithinContainer ev c\<rparr>)"

text \<open>
  \<^verbatim>\<open>mouseMoveListener\<close>: \<^verbatim>\<open>secondPoint\<close> is set on every move with a target;
  \<^verbatim>\<open>firstPoint && hasSelectedField\<close> gates only the deselection.
\<close>

definition mouseMoveListener :: "container \<Rightarrow> app_state \<Rightarrow> mouse_event \<Rightarrow> app_state" where
  "mouseMoveListener c s ev =
     (if target ev = None then s
      else if firstPoint s \<noteq> None \<and> hasSelectedField (fields_st s) then
        s\<lparr>secondPoint := mousePositionWithinContainer ev c,
          fields_st := deselectAll (fields_st s)\<rparr>
      else s\<lparr>secondPoint := mousePositionWithinContainer ev c\<rparr>)"

subsection \<open>Sequences of store updates\<close>

text \<open>
  The four updaters that the component passes to \<^verbatim>\<open>setFields\<close>, as operations on
  the store, and a run of them from the initial \<^verbatim>\<open>useState([])\<close>. \<open>uuids\<close> lists
  the ids that \<^verbatim>\<open>uuid()\<close> produced for the commits of a run, in order.
\<close>

datatype store_op =
    Append int string box
  | SelectOnly string
  | DeselectAll
  | Remove string

fun apply_store_op :: "field list \<Rightarrow> store_op \<Rightarrow> field list" where
  "apply_store_op fs (Append pg uid bx) = appendField pg uid bx fs"
| "apply_store_op fs (SelectOnly fid) = onClick fid fs"
| "apply_store_op fs DeselectAll = deselectAll fs"
| "apply_store_op fs (Remove fid) = deleteSelf fid fs"

definition run_store :: "store_op list \<Rightarrow> field list" where
  "run_store ops = foldl apply_store_op [] ops"

fun uuids :: "store_op list \<Rightarrow> string list" where
  "uuids [] = []"
| "uuids (Append pg uid bx # ops) = uid # uuids ops"
| "uuids (_ # ops) = uuids ops"

subsection \<open>A drag that goes on\<close>

text \<open>
  The moves that follow one another before a release, each with the container's
  bounding rectangle at its time: \<^verbatim>\<open>mouseMoveListener\<close> applied in order.
\<close>

definition run_moves :: "app_state \<Rightarrow> (container \<times> mouse_event) list \<Rightarrow> app_state" where
  "run_moves s moves = foldl (\<lambda>st (c, ev). mouseMoveListener c st ev) s moves"

section \<open>Geometry: area and the size test\<close>

text \<open>
  C9. The area of a box is \<open>|a.x - b.x| * |a.y - b.y|\<close>; it is the same when the two
  corners are swapped, and when the x and y coordinates of both corners are swapped.
\<close>

theorem size_box_symmetric:
  "size_box bx = \<bar>x (a bx) - x (b bx)\<bar> * \<bar>y (a bx) - y (b bx)\<bar>
   \<and> size_box \<lparr>a = b bx, b = a bx\<rparr> = size_box bx
   \<and> size_box \<lparr>a = \<lparr>x = y (a bx), y = x (a bx)\<rparr>, b = \<lparr>x = y (b bx), y = x (b bx)\<rparr>\<rparr>
       = size_box bx"
  by (simp add: size_box_def abs_minus_commute mult.commute)

text \<open>
  C3. The size test is the strict comparison \<open>size(box) < 200\<close>: a box whose area is
  exactly 200 is not too small, a box of area 201 is not too small either, and
  every box of area below 200 is too small.
\<close>

theorem tooSmall_boundary:
  "(size_box bx = 200 \<longrightarrow> \<not> tooSmall bx)
   \<and> (size_box bx = 201 \<longrightarrow> \<not> tooSmall bx)
   \<and> (size_box bx < 200 \<longrightarrow> tooSmall bx)"
  by (simp add: tooSmall_def)

text \<open>
  The three cases at boxes of 10 by 20, 67 by 3 and 5 by 5.
\<close>

theorem tooSmall_boundary_witness:
  "size_box \<lparr>a = \<lparr>x = 0, y = 0\<rparr>, b = \<lparr>x = 10, y = 20\<rparr>\<rparr> = 200
   \<and> \<not> tooSmall \<lparr>a = \<lparr>x = 0, y = 0\<rparr>, b = \<lparr>x = 10, y = 20\<rparr>\<rparr>
   \<and> size_box \<lparr>a = \<lparr>x = 70, y = 3\<rparr>, b = \<lparr>x = 3, y = 0\<rparr>\<rparr> = 201
   \<and> \<not> tooSmall \<lparr>a = \<lparr>x = 70, y = 3\<rparr>, b = \<lparr>x = 3, y = 0\<rparr>\<rparr>
   \<and> size_box \<lparr>a = \<lparr>x = 0, y = 0\<rparr>, b = \<lparr>x = 5, y = 5\<rparr>\<rparr> < 200
   \<and> tooSmall \<lparr>a = \<lparr>x = 0, y = 0\<rparr>, b = \<lparr>x = 5, y = 5\<rparr>\<rparr>"
proof -
  have h1: "size_box \<lparr>a = \<lparr>x = 0, y = 0\<rparr>, b = \<lparr>x = 10, y = 20\<rparr>\<rparr> = 200"
    by (simp add: size_box_def)
  have h2: "size_box \<lparr>a = \<lparr>x = 70, y = 3\<rparr>, b = \<lparr>x = 3, y = 0\<rparr>\<rparr> = 201"
    by (simp add: size_box_def)
  have h3: "size_box \<lparr>a = \<lparr>x = 0, y = 0\<rparr>, b = \<lparr>x = 5, y = 5\<rparr>\<rparr> < 200"
    by (simp add: size_box_def)
  from h1 h2 h3
    tooSmall_boundary [of "\<lparr>a = \<lparr>x = 0, y = 0\<rparr>, b = \<lparr>x = 10, y = 20\<rparr>\<rparr>"]
    tooSmall_boundary [of "\<lparr>a = \<lparr>x = 70, y = 3\<rparr>, b = \<lparr>x = 3, y = 0\<rparr>\<rparr>"]
    tooSmall_boundary [of "\<lparr>a = \<lparr>x = 0, y = 0\<rparr>, b = \<lparr>x = 5, y = 5\<rparr>\<rparr>"]
  show ?thesis by blast
qed

text \<open>
  C3 as the spec words it (area exactly 200 is degenerate) fails at the box with
  corners (0, 0) and (10, 20): its area is 200 and \<^verbatim>\<open>tooSmall\<close> is false.
\<close>

theorem area_200_not_tooSmall_counterexample:
  "size_box \<lparr>a = \<lparr>x = 0, y = 0\<rparr>, b = \<lparr>x = 10, y = 20\<rparr>\<rparr> = 200
   \<and> \<not> tooSmall \<lparr>a = \<lparr>x = 0, y = 0\<rparr>, b = \<lparr>x = 10, y = 20\<rparr>\<rparr>"
  by (simp add: tooSmall_def size_box_def)

section \<open>The store: selection is exclusive\<close>

lemma uuids_append: "uuids (ops @ ops') = uuids ops @ uuids ops'"
  by (induction ops rule: uuids.induct) simp_all

lemma onClick_none_selected:
  "fid \<notin> id_field ` set fs \<Longrightarrow> filter selected (onClick fid fs) = []"
  by (induction fs) (auto simp: onClick_def)

lemma onClick_selected_bound:
  "distinct (map id_field fs) \<Longrightarrow> length (filter selected (onClick fid fs)) \<le> 1"
proof (induction fs)
  case Nil
  then show ?case by (simp add: onClick_def)
next
  case (Cons f fs)
  show ?case
  proof (cases "id_field f = fid")
    case True
    with Cons.prems have "fid \<notin> id_field ` set fs" by auto
    then have "filter selected (onClick fid fs) = []" by (rule onClick_none_selected)
    then show ?thesis using True by (simp add: onClick_def)
  next
    case False
    with Cons show ?thesis by (simp add: onClick_def)
  qed
qed

lemma ids_onClick: "map id_field (onClick fid fs) = map id_field fs"
  by (simp add: onClick_def)

lemma ids_deselectAll: "map id_field (deselectAll fs) = map id_field fs"
  by (simp add: deselectAll_def)

lemma deselectAll_none_selected: "filter selected (deselectAll fs) = []"
  by (induction fs) (simp_all add: deselectAll_def)

lemma deleteSelf_selected_bound:
  "length (filter selected (deleteSelf fid fs)) \<le> length (filter selected fs)"
  by (induction fs) (simp_all add: deleteSelf_def)

lemma ids_deleteSelf:
  "map id_field (deleteSelf fid fs) = filter (\<lambda>i. i \<noteq> fid) (map id_field fs)"
  by (induction fs) (simp_all add: deleteSelf_def)

lemma run_store_invariant:
  "distinct (uuids ops) \<Longrightarrow>
     distinct (map id_field (run_store ops))
     \<and> set (map id_field (run_store ops)) \<subseteq> set (uuids ops)
     \<and> length (filter selected (run_store ops)) \<le> 1"
proof (induction ops rule: rev_induct)
  case Nil
  show ?case by (simp add: run_store_def)
next
  case (snoc op ops)
  from snoc.prems have d: "distinct (uuids ops)" by (simp add: uuids_append)
  note ih = snoc.IH [OF d]
  have step: "run_store (ops @ [op']) = apply_store_op (run_store ops) op'" for op'
    by (simp add: run_store_def)
  show ?case
  proof (cases op)
    case (Append pg uid bx)
    with snoc.prems have fresh: "uid \<notin> set (uuids ops)" by (simp add: uuids_append)
    with ih have "uid \<notin> set (map id_field (run_store ops))" by blast
    with ih show ?thesis
      by (auto simp: step Append appendField_def uuids_append)
  next
    case (SelectOnly fid)
    with ih onClick_selected_bound [of "run_store ops" fid] show ?thesis
      by (simp add: step ids_onClick uuids_append)
  next
    case DeselectAll
    with ih show ?thesis
      by (simp add: step ids_deselectAll deselectAll_none_selected uuids_append)
  next
    case (Remove fid)
    have "length (filter selected (deleteSelf fid (run_store ops))) \<le> 1"
      using deleteSelf_selected_bound [of fid "run_store ops"] ih by linarith
    with ih show ?thesis
      by (auto simp: step Remove ids_deleteSelf uuids_append)
  qed
qed

lemma onClick_exchange:
  assumes "distinct (map id_field fs)" "B \<in> set fs"
  shows "filter selected (onClick (id_field B) fs) = [B\<lparr>selected := True\<rparr>]"
  using assms
proof (induction fs)
  case Nil
  then show ?case by simp
next
  case (Cons f fs)
  show ?case
  proof (cases "f = B")
    case True
    with Cons.prems have "id_field B \<notin> id_field ` set fs" by auto
    then have "filter selected (onClick (id_field B) fs) = []" by (rule onClick_none_selected)
    then show ?thesis using True by (simp add: onClick_def)
  next
    case False
    with Cons.prems have "B \<in> set fs" by simp
    moreover from this Cons.prems have "id_field f \<noteq> id_field B" by auto
    ultimately show ?thesis using Cons by (simp add: onClick_def)
  qed
qed

text \<open>
  C6. In every store reached by a sequence of the store updates (append on commit,
  select a field, deselect all, remove) in which the ids generated for the commits
  are pairwise distinct, as \<^verbatim>\<open>uuid()\<close> provides, at most one field is selected. In
  particular, when \<open>A\<close> and \<open>B\<close> are different fields of such a store, whatever
  their pages, and \<open>A\<close> is selected, the click on \<open>B\<close> leaves \<open>B\<close> the only selected
  field and \<open>A\<close> deselected.
\<close>

theorem at_most_one_selected:
  assumes "distinct (uuids ops)"
  shows "length (filter selected (run_store ops)) \<le> 1
    \<and> (A \<in> set (run_store ops) \<and> B \<in> set (run_store ops) \<and> A \<noteq> B \<and> selected A \<longrightarrow>
         filter selected (onClick (id_field B) (run_store ops)) = [B\<lparr>selected := True\<rparr>]
         \<and> A\<lparr>selected := False\<rparr> \<in> set (onClick (id_field B) (run_store ops))
         \<and> B\<lparr>selected := True\<rparr> \<in> set (onClick (id_field B) (run_store ops)))"
proof -
  note inv = run_store_invariant [OF assms]
  have "filter selected (onClick (id_field B) (run_store ops)) = [B\<lparr>selected := True\<rparr>]"
    "A\<lparr>selected := False\<rparr> \<in> set (onClick (id_field B) (run_store ops))"
    "B\<lparr>selected := True\<rparr> \<in> set (onClick (id_field B) (run_store ops))"
    if h: "A \<in> set (run_store ops)" "B \<in> set (run_store ops)" "A \<noteq> B"
  proof -
    from inv h have ne: "id_field A \<noteq> id_field B"
      by (metis distinct_map inj_on_def)
    show "filter selected (onClick (id_field B) (run_store ops)) = [B\<lparr>selected := True\<rparr>]"
      using inv h by (simp add: onClick_exchange)
    have "(\<lambda>f. f\<lparr>selected := (id_field f = id_field B)\<rparr>) A \<in> set (onClick (id_field B) (run_store ops))"
      unfolding onClick_def set_map using h(1) by (rule imageI)
    with ne show "A\<lparr>selected := False\<rparr> \<in> set (onClick (id_field B) (run_store ops))" by simp
    have "(\<lambda>f. f\<lparr>selected := (id_field f = id_field B)\<rparr>) B \<in> set (onClick (id_field B) (run_store ops))"
      unfolding onClick_def set_map using h(2) by (rule imageI)
    then show "B\<lparr>selected := True\<rparr> \<in> set (onClick (id_field B) (run_store ops))" by simp
  qed
  with inv show ?thesis by blast
qed

text \<open>
  Two commits on pages 1 and 2 and a click on the first field; then the click on
  the second.
\<close>

theorem at_most_one_selected_witness:
  "distinct (uuids [Append 1 ''u1'' \<lparr>a = \<lparr>x = 0, y = 0\<rparr>, b = \<lparr>x = 50, y = 50\<rparr>\<rparr>,
                    Append 2 ''u2'' \<lparr>a = \<lparr>x = 10, y = 10\<rparr>, b = \<lparr>x = 40, y = 90\<rparr>\<rparr>,
                    SelectOnly ''u1''])
   \<and> run_store [Append 1 ''u1'' \<lparr>a = \<lparr>x = 0, y = 0\<rparr>, b = \<lparr>x = 50, y = 50\<rparr>\<rparr>,
                 Append 2 ''u2'' \<lparr>a = \<lparr>x = 10, y = 10\<rparr>, b = \<lparr>x = 40, y = 90\<rparr>\<rparr>,
                 SelectOnly ''u1'']
       = [\<lparr>page = 1, box = \<lparr>a = \<lparr>x = 0, y = 0\<rparr>, b = \<lparr>x = 50, y = 50\<rparr>\<rparr>,
            id_field = ''u1'', selected = True\<rparr>,
          \<lparr>page = 2, box = \<lparr>a = \<lparr>x = 10, y = 10\<rparr>, b = \<lparr>x = 40, y = 90\<rparr>\<rparr>,
            id_field = ''u2'', selected = False\<rparr>]
   \<and> length (filter selected
        (run_store [Append 1 ''u1'' \<lparr>a = \<lparr>x = 0, y = 0\<rparr>, b = \<lparr>x = 50, y = 50\<rparr>\<rparr>,
                    Append 2 ''u2'' \<lparr>a = \<lparr>x = 10, y = 10\<rparr>, b = \<lparr>x = 40, y = 90\<rparr>\<rparr>,
                    SelectOnly ''u1''])) \<le> 1
   \<and> filter selected (onClick ''u2''
        (run_store [Append 1 ''u1'' \<lparr>a = \<lparr>x = 0, y = 0\<rparr>, b = \<lparr>x = 50, y = 50\<rparr>\<rparr>,
                    Append 2 ''u2'' \<lparr>a = \<lparr>x = 10, y = 10\<rparr>, b = \<lparr>x = 40, y = 90\<rparr>\<rparr>,
                    SelectOnly ''u1'']))
       = [\<lparr>page = 2, box = \<lparr>a = \<lparr>x = 10, y = 10\<rparr>, b = \<lparr>x = 40, y = 90\<rparr>\<rparr>,
            id_field = ''u2'', selected = True\<rparr>]"
proof -
  let ?ops = "[Append 1 ''u1'' \<lparr>a = \<lparr>x = 0, y = 0\<rparr>, b = \<lparr>x = 50, y = 50\<rparr>\<rparr>,
               Append 2 ''u2'' \<lparr>a = \<lparr>x = 10, y = 10\<rparr>, b = \<lparr>x = 40, y = 90\<rparr>\<rparr>,
               SelectOnly ''u1'']"
  let ?A = "\<lparr>page = 1, box = \<lparr>a = \<lparr>x = 0, y = 0\<rparr>, b = \<lparr>x = 50, y = 50\<rparr>\<rparr>,
             id_field = ''u1'', selected = True\<rparr>"
  let ?B = "\<lparr>page = 2, box = \<lparr>a = \<lparr>x = 10, y = 10\<rparr>, b = \<lparr>x = 40, y = 90\<rparr>\<rparr>,
             id_field = ''u2'', selected = False\<rparr>"
  have d: "distinct (uuids ?ops)" by simp
  have r: "run_store ?ops = [?A, ?B]"
    by (simp add: run_store_def appendField_def onClick_def)
  have h: "?A \<in> set (run_store ?ops) \<and> ?B \<in> set (run_store ?ops) \<and> ?A \<noteq> ?B \<and> selected ?A"
    by (simp add: r)
  from at_most_one_selected [OF d, of ?A ?B] h d r show ?thesis by simp
qed

section \<open>The release: \<^verbatim>\<open>commitNewZone\<close>\<close>

lemma hasSelectedField_iff: "hasSelectedField fs = (\<exists>f \<in> set fs. selected f)"
  by (auto simp: hasSelectedField_def find_None_iff)

lemma hasSelectedField_filter: "hasSelectedField fs = (filter selected fs \<noteq> [])"
  by (auto simp: hasSelectedField_iff filter_empty_conv)

text \<open>
  C7. A release with both points set and a candidate box that is not too small
  appends exactly one field to the store: its page is the current page, its box
  the candidate box \<open>{a: firstPoint, b: secondPoint}\<close>, its id the generated one, and
  it is not selected. The fields that were there keep their place and their
  \<open>selected\<close> flags, whatever the target of the release.
\<close>

theorem commit_appends_one_field:
  assumes "firstPoint s = Some p" and "secondPoint s = Some q"
    and "\<not> tooSmall \<lparr>a = p, b = q\<rparr>"
  shows "fields_st (commitNewZone s ev uid) =
           fields_st s @ [\<lparr>page = pageNumber s, box = \<lparr>a = p, b = q\<rparr>,
                          id_field = uid, selected = False\<rparr>]
    \<and> length (fields_st (commitNewZone s ev uid)) = Suc (length (fields_st s))
    \<and> map selected (take (length (fields_st s)) (fields_st (commitNewZone s ev uid))) =
        map selected (fields_st s)"
  using assms by (simp add: commitNewZone_def appendField_def)

text \<open>
  The spec's scenario: press at (0, 0), move to (50, 50), release on the canvas of
  page 3, while a field of page 1 is selected.
\<close>

theorem commit_appends_one_field_witness:
  "\<not> tooSmall \<lparr>a = \<lparr>x = 0, y = 0\<rparr>, b = \<lparr>x = 50, y = 50\<rparr>\<rparr>
   \<and> fields_st (commitNewZone
        \<lparr>pageNumber = 3, firstPoint = Some \<lparr>x = 0, y = 0\<rparr>,
         secondPoint = Some \<lparr>x = 50, y = 50\<rparr>,
         fields_st = [\<lparr>page = 1, box = \<lparr>a = \<lparr>x = 5, y = 5\<rparr>, b = \<lparr>x = 90, y = 40\<rparr>\<rparr>,
                       id_field = ''u1'', selected = True\<rparr>]\<rparr>
        \<lparr>target = Some [''react-pdf__Page__canvas''], clientX = 60, clientY = 70\<rparr> ''u2'')
      = [\<lparr>page = 1, box = \<lparr>a = \<lparr>x = 5, y = 5\<rparr>, b = \<lparr>x = 90, y = 40\<rparr>\<rparr>,
           id_field = ''u1'', selected = True\<rparr>,
         \<lparr>page = 3, box = \<lparr>a = \<lparr>x = 0, y = 0\<rparr>, b = \<lparr>x = 50, y = 50\<rparr>\<rparr>,
           id_field = ''u2'', selected = False\<rparr>]"
proof -
  let ?s = "\<lparr>pageNumber = 3, firstPoint = Some \<lparr>x = 0, y = 0\<rparr>,
         secondPoint = Some \<lparr>x = 50, y = 50\<rparr>,
         fields_st = [\<lparr>page = 1, box = \<lparr>a = \<lparr>x = 5, y = 5\<rparr>, b = \<lparr>x = 90, y = 40\<rparr>\<rparr>,
                       id_field = ''u1'', selected = True\<rparr>]\<rparr>"
  have h1: "firstPoint ?s = Some \<lparr>x = 0, y = 0\<rparr>" by simp
  have h2: "secondPoint ?s = Some \<lparr>x = 50, y = 50\<rparr>" by simp
  have h3: "\<not> tooSmall \<lparr>a = \<lparr>x = 0, y = 0\<rparr>, b = \<lparr>x = 50, y = 50\<rparr>\<rparr>"
    by (simp add: tooSmall_def size_box_def)
  from commit_appends_one_field [OF h1 h2 h3,
      of "\<lparr>target = Some [''react-pdf__Page__canvas''], clientX = 60, clientY = 70\<rparr>" "''u2''"] h3
  show ?thesis by simp
qed

text \<open>
  C1. A release with \<open>firstPoint\<close> set leaves both points \<open>null\<close> when \<open>secondPoint\<close>
  is set too, in every branch (commit, deselection, a delete control as target,
  nothing selected) but one: when the box is too small, a field is selected and
  the target is \<open>null\<close>, the listener returns with the state as it was. When
  \<open>secondPoint\<close> is absent the listener returns at its first guard, again with the
  state as it was, so \<open>firstPoint\<close> stays set.
\<close>

theorem release_clears_drag_state:
  assumes "firstPoint s = Some p"
  shows "(secondPoint s = None \<longrightarrow> commitNewZone s ev uid = s)
    \<and> (secondPoint s = Some q \<and> tooSmall \<lparr>a = p, b = q\<rparr> \<and> hasSelectedField (fields_st s)
         \<and> target ev = None \<longrightarrow> commitNewZone s ev uid = s)
    \<and> (secondPoint s = Some q
         \<and> \<not> (tooSmall \<lparr>a = p, b = q\<rparr> \<and> hasSelectedField (fields_st s) \<and> target ev = None) \<longrightarrow>
           firstPoint (commitNewZone s ev uid) = None
           \<and> secondPoint (commitNewZone s ev uid) = None)"
  using assms by (auto simp: commitNewZone_def split: option.splits)

text \<open>
  The three cases: no second point; a small box, a selected field and no target;
  a small box, a selected field and the delete control as target.
\<close>

theorem release_clears_drag_state_witness:
  "commitNewZone
      \<lparr>pageNumber = 1, firstPoint = Some \<lparr>x = 0, y = 0\<rparr>, secondPoint = None, fields_st = []\<rparr>
      \<lparr>target = Some [''react-pdf__Page__canvas''], clientX = 0, clientY = 0\<rparr> ''u2''
    = \<lparr>pageNumber = 1, firstPoint = Some \<lparr>x = 0, y = 0\<rparr>, secondPoint = None, fields_st = []\<rparr>
   \<and> commitNewZone
      \<lparr>pageNumber = 1, firstPoint = Some \<lparr>x = 0, y = 0\<rparr>, secondPoint = Some \<lparr>x = 5, y = 5\<rparr>,
       fields_st = [\<lparr>page = 1, box = \<lparr>a = \<lparr>x = 5, y = 5\<rparr>, b = \<lparr>x = 90, y = 40\<rparr>\<rparr>,
                     id_field = ''u1'', selected = True\<rparr>]\<rparr>
      \<lparr>target = None, clientX = 5, clientY = 5\<rparr> ''u2''
    = \<lparr>pageNumber = 1, firstPoint = Some \<lparr>x = 0, y = 0\<rparr>, secondPoint = Some \<lparr>x = 5, y = 5\<rparr>,
       fields_st = [\<lparr>page = 1, box = \<lparr>a = \<lparr>x = 5, y = 5\<rparr>, b = \<lparr>x = 90, y = 40\<rparr>\<rparr>,
                     id_field = ''u1'', selected = True\<rparr>]\<rparr>
   \<and> firstPoint (commitNewZone
      \<lparr>pageNumber = 1, firstPoint = Some \<lparr>x = 0, y = 0\<rparr>, secondPoint = Some \<lparr>x = 5, y = 5\<rparr>,
       fields_st = [\<lparr>page = 1, box = \<lparr>a = \<lparr>x = 5, y = 5\<rparr>, b = \<lparr>x = 90, y = 40\<rparr>\<rparr>,
                     id_field = ''u1'', selected = True\<rparr>]\<rparr>
      \<lparr>target = Some [''sb'', ''sb-left''], clientX = 5, clientY = 5\<rparr> ''u2'') = None
   \<and> secondPoint (commitNewZone
      \<lparr>pageNumber = 1, firstPoint = Some \<lparr>x = 0, y = 0\<rparr>, secondPoint = Some \<lparr>x = 5, y = 5\<rparr>,
       fields_st = [\<lparr>page = 1, box = \<lparr>a = \<lparr>x = 5, y = 5\<rparr>, b = \<lparr>x = 90, y = 40\<rparr>\<rparr>,
                     id_field = ''u1'', selected = True\<rparr>]\<rparr>
      \<lparr>target = Some [''sb'', ''sb-left''], clientX = 5, clientY = 5\<rparr> ''u2'') = None"
proof -
  let ?s0 = "\<lparr>pageNumber = 1, firstPoint = Some \<lparr>x = 0, y = 0\<rparr>, secondPoint = None,
              fields_st = []\<rparr>"
  let ?s1 = "\<lparr>pageNumber = 1, firstPoint = Some \<lparr>x = 0, y = 0\<rparr>,
              secondPoint = Some \<lparr>x = 5, y = 5\<rparr>,
              fields_st = [\<lparr>page = 1, box = \<lparr>a = \<lparr>x = 5, y = 5\<rparr>, b = \<lparr>x = 90, y = 40\<rparr>\<rparr>,
                            id_field = ''u1'', selected = True\<rparr>]\<rparr>"
  have h0: "firstPoint ?s0 = Some \<lparr>x = 0, y = 0\<rparr>" by simp
  have h1: "firstPoint ?s1 = Some \<lparr>x = 0, y = 0\<rparr>" by simp
  have t: "tooSmall \<lparr>a = \<lparr>x = 0, y = 0\<rparr>, b = \<lparr>x = 5, y = 5\<rparr>\<rparr>"
    by (simp add: tooSmall_def size_box_def)
  have sel: "hasSelectedField (fields_st ?s1)"
    by (simp add: hasSelectedField_def)
  from release_clears_drag_state [OF h0, where
      ev = "\<lparr>target = Some [''react-pdf__Page__canvas''], clientX = 0, clientY = 0\<rparr>"
      and uid = "''u2''"]
    release_clears_drag_state [OF h1, where q = "\<lparr>x = 5, y = 5\<rparr>"
      and ev = "\<lparr>target = None, clientX = 5, clientY = 5\<rparr>" and uid = "''u2''"]
    release_clears_drag_state [OF h1, where q = "\<lparr>x = 5, y = 5\<rparr>"
      and ev = "\<lparr>target = Some [''sb'', ''sb-left''], clientX = 5, clientY = 5\<rparr>"
      and uid = "''u2''"]
    t sel
  show ?thesis by simp
qed

text \<open>
  C1 as the spec words it (both points are null after every release of a drag)
  fails at a press at (0, 0) that is released with no move in between:
  \<open>firstPoint\<close> is still set afterwards.
\<close>

theorem release_keeps_first_point_counterexample:
  "firstPoint (commitNewZone
      \<lparr>pageNumber = 1, firstPoint = Some \<lparr>x = 0, y = 0\<rparr>, secondPoint = None, fields_st = []\<rparr>
      \<lparr>target = Some [''react-pdf__Page__canvas''], clientX = 0, clientY = 0\<rparr> ''u1'')
   = Some \<lparr>x = 0, y = 0\<rparr>"
  by (simp add: commitNewZone_def)

text \<open>
  C2. A release with \<open>firstPoint\<close> set and \<open>secondPoint\<close> absent changes nothing,
  whatever its target: the guard returns before any \<^verbatim>\<open>set...\<close> call, so every
  field keeps its \<open>selected\<close> flag and a selected field stays selected.
\<close>

theorem release_without_move_changes_nothing:
  assumes "firstPoint s = Some p" and "secondPoint s = None"
  shows "commitNewZone s ev uid = s
    \<and> map selected (fields_st (commitNewZone s ev uid)) = map selected (fields_st s)
    \<and> hasSelectedField (fields_st (commitNewZone s ev uid)) = hasSelectedField (fields_st s)"
  using assms by (simp add: commitNewZone_def)

text \<open>
  A motionless click on the canvas while a field is selected.
\<close>

theorem release_without_move_changes_nothing_witness:
  "hasSelectedField (fields_st (commitNewZone
      \<lparr>pageNumber = 1, firstPoint = Some \<lparr>x = 0, y = 0\<rparr>, secondPoint = None,
       fields_st = [\<lparr>page = 1, box = \<lparr>a = \<lparr>x = 5, y = 5\<rparr>, b = \<lparr>x = 90, y = 40\<rparr>\<rparr>,
                     id_field = ''u1'', selected = True\<rparr>]\<rparr>
      \<lparr>target = Some [''react-pdf__Page__canvas''], clientX = 0, clientY = 0\<rparr> ''u2''))
   \<and> firstPoint (commitNewZone
      \<lparr>pageNumber = 1, firstPoint = Some \<lparr>x = 0, y = 0\<rparr>, secondPoint = None,
       fields_st = [\<lparr>page = 1, box = \<lparr>a = \<lparr>x = 5, y = 5\<rparr>, b = \<lparr>x = 90, y = 40\<rparr>\<rparr>,
                     id_field = ''u1'', selected = True\<rparr>]\<rparr>
      \<lparr>target = Some [''react-pdf__Page__canvas''], clientX = 0, clientY = 0\<rparr> ''u2'')
     = Some \<lparr>x = 0, y = 0\<rparr>"
proof -
  let ?s = "\<lparr>pageNumber = 1, firstPoint = Some \<lparr>x = 0, y = 0\<rparr>, secondPoint = None,
       fields_st = [\<lparr>page = 1, box = \<lparr>a = \<lparr>x = 5, y = 5\<rparr>, b = \<lparr>x = 90, y = 40\<rparr>\<rparr>,
                     id_field = ''u1'', selected = True\<rparr>]\<rparr>"
  have h1: "firstPoint ?s = Some \<lparr>x = 0, y = 0\<rparr>" by simp
  have h2: "secondPoint ?s = None" by simp
  have sel: "hasSelectedField (fields_st ?s)" by (simp add: hasSelectedField_def)
  from release_without_move_changes_nothing [OF h1 h2, where
      ev = "\<lparr>target = Some [''react-pdf__Page__canvas''], clientX = 0, clientY = 0\<rparr>"
      and uid = "''u2''"] sel
  show ?thesis by simp
qed

text \<open>
  C2 as the spec words it (such a release clears the selection) fails there: the
  target has no class \<open>sb\<close> and the only field is still selected after the release.
\<close>

theorem release_without_move_counterexample:
  "''sb'' \<notin> set [''react-pdf__Page__canvas'']
   \<and> map selected (fields_st (commitNewZone
      \<lparr>pageNumber = 1, firstPoint = Some \<lparr>x = 0, y = 0\<rparr>, secondPoint = None,
       fields_st = [\<lparr>page = 1, box = \<lparr>a = \<lparr>x = 5, y = 5\<rparr>, b = \<lparr>x = 90, y = 40\<rparr>\<rparr>,
                     id_field = ''u1'', selected = True\<rparr>]\<rparr>
      \<lparr>target = Some [''react-pdf__Page__canvas''], clientX = 0, clientY = 0\<rparr> ''u2''))
   = [True]"
  by (simp add: commitNewZone_def)

text \<open>
  C5. A press or a move whose target is \<open>null\<close> changes nothing. A release whose
  target is \<open>null\<close> changes nothing when a point of the drag is absent, or when
  the box is too small and a field is selected; the target is read in that branch
  only. Otherwise the release goes on as with any target: a box that is too small,
  with nothing selected, clears the two points, and a box that is not too small is
  committed and the two points are cleared.
\<close>

theorem null_target_events:
  assumes "target ev = None"
  shows "mouseDownListener c s ev = s
    \<and> mouseMoveListener c s ev = s
    \<and> (firstPoint s = None \<or> secondPoint s = None \<longrightarrow> commitNewZone s ev uid = s)
    \<and> (firstPoint s = Some p \<and> secondPoint s = Some q \<and> tooSmall \<lparr>a = p, b = q\<rparr>
         \<and> hasSelectedField (fields_st s) \<longrightarrow> commitNewZone s ev uid = s)
    \<and> (firstPoint s = Some p \<and> secondPoint s = Some q \<and> tooSmall \<lparr>a = p, b = q\<rparr>
         \<and> \<not> hasSelectedField (fields_st s) \<longrightarrow>
           commitNewZone s ev uid = s\<lparr>firstPoint := None, secondPoint := None\<rparr>)
    \<and> (firstPoint s = Some p \<and> secondPoint s = Some q \<and> \<not> tooSmall \<lparr>a = p, b = q\<rparr> \<longrightarrow>
           commitNewZone s ev uid =
             s\<lparr>fields_st := fields_st s @ [\<lparr>page = pageNumber s, box = \<lparr>a = p, b = q\<rparr>,
                                              id_field = uid, selected = False\<rparr>],
               firstPoint := None, secondPoint := None\<rparr>)"
  using assms
  by (auto simp: mouseDownListener_def mouseMoveListener_def commitNewZone_def appendField_def
      split: option.splits)

text \<open>
  The press, the move and the four cases of the release at an event with no
  target.
\<close>

theorem null_target_events_witness:
  "mouseDownListener \<lparr>rect_left = 1, rect_top = 2\<rparr>
      \<lparr>pageNumber = 1, firstPoint = None, secondPoint = None, fields_st = []\<rparr>
      \<lparr>target = None, clientX = 5, clientY = 7\<rparr>
    = \<lparr>pageNumber = 1, firstPoint = None, secondPoint = None, fields_st = []\<rparr>
   \<and> mouseMoveListener \<lparr>rect_left = 1, rect_top = 2\<rparr>
      \<lparr>pageNumber = 1, firstPoint = None, secondPoint = None, fields_st = []\<rparr>
      \<lparr>target = None, clientX = 5, clientY = 7\<rparr>
    = \<lparr>pageNumber = 1, firstPoint = None, secondPoint = None, fields_st = []\<rparr>
   \<and> commitNewZone
      \<lparr>pageNumber = 1, firstPoint = None, secondPoint = None, fields_st = []\<rparr>
      \<lparr>target = None, clientX = 5, clientY = 7\<rparr> ''u2''
    = \<lparr>pageNumber = 1, firstPoint = None, secondPoint = None, fields_st = []\<rparr>
   \<and> commitNewZone
      \<lparr>pageNumber = 1, firstPoint = Some \<lparr>x = 0, y = 0\<rparr>, secondPoint = Some \<lparr>x = 5, y = 5\<rparr>,
       fields_st = [\<lparr>page = 1, box = \<lparr>a = \<lparr>x = 5, y = 5\<rparr>, b = \<lparr>x = 90, y = 40\<rparr>\<rparr>,
                     id_field = ''u1'', selected = True\<rparr>]\<rparr>
      \<lparr>target = None, clientX = 5, clientY = 7\<rparr> ''u2''
    = \<lparr>pageNumber = 1, firstPoint = Some \<lparr>x = 0, y = 0\<rparr>, secondPoint = Some \<lparr>x = 5, y = 5\<rparr>,
       fields_st = [\<lparr>page = 1, box = \<lparr>a = \<lparr>x = 5, y = 5\<rparr>, b = \<lparr>x = 90, y = 40\<rparr>\<rparr>,
                     id_field = ''u1'', selected = True\<rparr>]\<rparr>
   \<and> commitNewZone
      \<lparr>pageNumber = 1, firstPoint = Some \<lparr>x = 0, y = 0\<rparr>, secondPoint = Some \<lparr>x = 5, y = 5\<rparr>,
       fields_st = []\<rparr>
      \<lparr>target = None, clientX = 5, clientY = 7\<rparr> ''u2''
    = \<lparr>pageNumber = 1, firstPoint = None, secondPoint = None, fields_st = []\<rparr>
   \<and> commitNewZone
      \<lparr>pageNumber = 1, firstPoint = Some \<lparr>x = 0, y = 0\<rparr>, secondPoint = Some \<lparr>x = 50, y = 50\<rparr>,
       fields_st = []\<rparr>
      \<lparr>target = None, clientX = 5, clientY = 7\<rparr> ''u2''
    = \<lparr>pageNumber = 1, firstPoint = None, secondPoint = None,
       fields_st = [\<lparr>page = 1, box = \<lparr>a = \<lparr>x = 0, y = 0\<rparr>, b = \<lparr>x = 50, y = 50\<rparr>\<rparr>,
                     id_field = ''u2'', selected = False\<rparr>]\<rparr>"
proof -
  let ?ev = "\<lparr>target = None, clientX = 5, clientY = 7\<rparr>"
  let ?c = "\<lparr>rect_left = 1, rect_top = 2\<rparr>"
  let ?idle = "\<lparr>pageNumber = 1, firstPoint = None, secondPoint = None, fields_st = []\<rparr>"
  let ?sel = "\<lparr>pageNumber = 1, firstPoint = Some \<lparr>x = 0, y = 0\<rparr>,
       secondPoint = Some \<lparr>x = 5, y = 5\<rparr>,
       fields_st = [\<lparr>page = 1, box = \<lparr>a = \<lparr>x = 5, y = 5\<rparr>, b = \<lparr>x = 90, y = 40\<rparr>\<rparr>,
                     id_field = ''u1'', selected = True\<rparr>]\<rparr>"
  let ?small = "\<lparr>pageNumber = 1, firstPoint = Some \<lparr>x = 0, y = 0\<rparr>,
       secondPoint = Some \<lparr>x = 5, y = 5\<rparr>, fields_st = []\<rparr>"
  let ?big = "\<lparr>pageNumber = 1, firstPoint = Some \<lparr>x = 0, y = 0\<rparr>,
       secondPoint = Some \<lparr>x = 50, y = 50\<rparr>, fields_st = []\<rparr>"
  have h: "target ?ev = None" by simp
  have t: "tooSmall \<lparr>a = \<lparr>x = 0, y = 0\<rparr>, b = \<lparr>x = 5, y = 5\<rparr>\<rparr>"
    by (simp add: tooSmall_def size_box_def)
  have nt: "\<not> tooSmall \<lparr>a = \<lparr>x = 0, y = 0\<rparr>, b = \<lparr>x = 50, y = 50\<rparr>\<rparr>"
    by (simp add: tooSmall_def size_box_def)
  have sel: "hasSelectedField (fields_st ?sel)" "\<not> hasSelectedField (fields_st ?small)"
    by (simp_all add: hasSelectedField_def)
  from null_target_events [OF h, where c = ?c and s = ?idle and uid = "''u2''"]
    null_target_events [OF h, where c = ?c and s = ?sel and uid = "''u2''"
      and p = "\<lparr>x = 0, y = 0\<rparr>" and q = "\<lparr>x = 5, y = 5\<rparr>"]
    null_target_events [OF h, where c = ?c and s = ?small and uid = "''u2''"
      and p = "\<lparr>x = 0, y = 0\<rparr>" and q = "\<lparr>x = 5, y = 5\<rparr>"]
    null_target_events [OF h, where c = ?c and s = ?big and uid = "''u2''"
      and p = "\<lparr>x = 0, y = 0\<rparr>" and q = "\<lparr>x = 50, y = 50\<rparr>"]
    t nt sel
  show ?thesis by simp
qed

text \<open>
  C5 as the spec words it (a release with a null target commits nothing) fails at
  a drag from (0, 0) to (50, 50): the field is appended.
\<close>

theorem null_target_release_commits_counterexample:
  "commitNewZone
      \<lparr>pageNumber = 1, firstPoint = Some \<lparr>x = 0, y = 0\<rparr>,
       secondPoint = Some \<lparr>x = 50, y = 50\<rparr>, fields_st = []\<rparr>
      \<lparr>target = None, clientX = 50, clientY = 50\<rparr> ''u1''
   = \<lparr>pageNumber = 1, firstPoint = None, secondPoint = None,
      fields_st = [\<lparr>page = 1, box = \<lparr>a = \<lparr>x = 0, y = 0\<rparr>, b = \<lparr>x = 50, y = 50\<rparr>\<rparr>,
                    id_field = ''u1'', selected = False\<rparr>]\<rparr>"
  by (simp add: commitNewZone_def tooSmall_def size_box_def appendField_def)

section \<open>The move: \<^verbatim>\<open>mouseMoveListener\<close>\<close>

text \<open>
  C4. A move while no drag is active (\<open>firstPoint\<close> is \<open>null\<close>) leaves the fields,
  \<open>firstPoint\<close> and the page number as they were, and writes the pointer's local
  position into \<open>secondPoint\<close>; only a move whose target is \<open>null\<close> leaves
  \<open>secondPoint\<close> as it was too.
\<close>

theorem idle_move_sets_second_point:
  assumes "firstPoint s = None"
  shows "fields_st (mouseMoveListener c s ev) = fields_st s
    \<and> firstPoint (mouseMoveListener c s ev) = None
    \<and> pageNumber (mouseMoveListener c s ev) = pageNumber s
    \<and> secondPoint (mouseMoveListener c s ev) =
        (if target ev = None then secondPoint s else mousePositionWithinContainer ev c)"
  using assms by (simp add: mouseMoveListener_def)

text \<open>
  A move over the canvas at (5, 7), the container's corner at (1, 2).
\<close>

theorem idle_move_sets_second_point_witness:
  "mouseMoveListener \<lparr>rect_left = 1, rect_top = 2\<rparr>
      \<lparr>pageNumber = 1, firstPoint = None, secondPoint = None,
       fields_st = [\<lparr>page = 1, box = \<lparr>a = \<lparr>x = 5, y = 5\<rparr>, b = \<lparr>x = 90, y = 40\<rparr>\<rparr>,
                     id_field = ''u1'', selected = True\<rparr>]\<rparr>
      \<lparr>target = Some [''react-pdf__Page__canvas''], clientX = 5, clientY = 7\<rparr>
   = \<lparr>pageNumber = 1, firstPoint = None, secondPoint = Some \<lparr>x = 4, y = 5\<rparr>,
       fields_st = [\<lparr>page = 1, box = \<lparr>a = \<lparr>x = 5, y = 5\<rparr>, b = \<lparr>x = 90, y = 40\<rparr>\<rparr>,
                     id_field = ''u1'', selected = True\<rparr>]\<rparr>"
proof -
  let ?s = "\<lparr>pageNumber = 1, firstPoint = None, secondPoint = None,
       fields_st = [\<lparr>page = 1, box = \<lparr>a = \<lparr>x = 5, y = 5\<rparr>, b = \<lparr>x = 90, y = 40\<rparr>\<rparr>,
                     id_field = ''u1'', selected = True\<rparr>]\<rparr>"
  let ?ev = "\<lparr>target = Some [''react-pdf__Page__canvas''], clientX = 5, clientY = 7\<rparr>"
  let ?c = "\<lparr>rect_left = 1, rect_top = 2\<rparr>"
  have h: "firstPoint ?s = None" by simp
  have pos: "mousePositionWithinContainer ?ev ?c = Some \<lparr>x = 4, y = 5\<rparr>"
    by (simp add: mousePositionWithinContainer_def)
  from idle_move_sets_second_point [OF h, where c = ?c and ev = ?ev] pos
  show ?thesis by (simp add: app_state.equality)
qed

text \<open>
  C4 as the spec words it (an idle move changes nothing) fails there:
  \<open>secondPoint\<close> was \<open>null\<close> and is (4, 5) after the move.
\<close>

theorem idle_move_counterexample:
  "secondPoint (mouseMoveListener \<lparr>rect_left = 1, rect_top = 2\<rparr>
      \<lparr>pageNumber = 1, firstPoint = None, secondPoint = None, fields_st = []\<rparr>
      \<lparr>target = Some [''react-pdf__Page__canvas''], clientX = 5, clientY = 7\<rparr>)
   = Some \<lparr>x = 4, y = 5\<rparr>"
  by (simp add: mouseMoveListener_def mousePositionWithinContainer_def)

lemma deselectAll_not_selected: "\<not> hasSelectedField (deselectAll fs)"
  by (simp add: hasSelectedField_iff deselectAll_def)

lemma mouseMoveListener_firstPoint: "firstPoint (mouseMoveListener c s ev) = firstPoint s"
  by (simp add: mouseMoveListener_def)

lemma mouseMoveListener_unselected:
  "\<not> hasSelectedField (fields_st s) \<Longrightarrow> fields_st (mouseMoveListener c s ev) = fields_st s"
  by (simp add: mouseMoveListener_def)

lemma mouseMoveListener_secondPoint:
  "secondPoint s \<noteq> None \<Longrightarrow> secondPoint (mouseMoveListener c s ev) \<noteq> None"
  by (simp add: mouseMoveListener_def mousePositionWithinContainer_def)

lemma run_moves_frame:
  "\<not> hasSelectedField (fields_st s) \<Longrightarrow> secondPoint s \<noteq> None \<Longrightarrow>
     firstPoint (run_moves s moves) = firstPoint s
     \<and> fields_st (run_moves s moves) = fields_st s
     \<and> secondPoint (run_moves s moves) \<noteq> None"
proof (induction moves arbitrary: s)
  case Nil
  then show ?case by (simp add: run_moves_def)
next
  case (Cons m moves)
  obtain c ev where m: "m = (c, ev)" by (cases m)
  have step: "run_moves s (m # moves) = run_moves (mouseMoveListener c s ev) moves"
    by (simp add: run_moves_def m)
  have "\<not> hasSelectedField (fields_st (mouseMoveListener c s ev))"
    using Cons.prems(1) by (simp add: mouseMoveListener_unselected)
  moreover have "secondPoint (mouseMoveListener c s ev) \<noteq> None"
    using Cons.prems(2) by (rule mouseMoveListener_secondPoint)
  ultimately show ?case
    using Cons.IH [of "mouseMoveListener c s ev"] Cons.prems(1)
    by (simp add: step mouseMoveListener_firstPoint mouseMoveListener_unselected)
qed

lemma commitNewZone_unselected:
  assumes "\<not> hasSelectedField (fields_st s)"
  shows "\<not> hasSelectedField (fields_st (commitNewZone s ev uid))"
  using assms
  by (auto simp: commitNewZone_def appendField_def hasSelectedField_iff split: option.splits)

text \<open>
  C8. A move delivered while a drag is active (\<open>firstPoint\<close> set) and some field is
  selected sets the \<open>selected\<close> flag of every field to false. A move that the
  browser dispatches to the listener on \<^verbatim>\<open>pageRef\<close> carries its target, which is
  the hypothesis \<open>target ev \<noteq> None\<close>. The deselection stays: after any further
  moves and the release, no field is selected, and when the box at the release is
  too small the store is the deselected store, with no field committed.
\<close>

theorem move_during_drag_deselects:
  assumes "firstPoint s = Some p" and "hasSelectedField (fields_st s)"
    and "target ev \<noteq> None"
  shows "fields_st (mouseMoveListener c s ev) = deselectAll (fields_st s)
    \<and> filter selected (fields_st (mouseMoveListener c s ev)) = []
    \<and> filter selected
        (fields_st (commitNewZone (run_moves (mouseMoveListener c s ev) moves) rel uid)) = []
    \<and> (secondPoint (run_moves (mouseMoveListener c s ev) moves) = Some q
         \<and> tooSmall \<lparr>a = p, b = q\<rparr> \<longrightarrow>
        fields_st (commitNewZone (run_moves (mouseMoveListener c s ev) moves) rel uid) =
          deselectAll (fields_st s))"
proof -
  let ?s1 = "mouseMoveListener c s ev"
  let ?s2 = "run_moves ?s1 moves"
  have f1: "fields_st ?s1 = deselectAll (fields_st s)"
    using assms by (auto simp: mouseMoveListener_def)
  then have u1: "\<not> hasSelectedField (fields_st ?s1)"
    by (simp add: deselectAll_not_selected)
  have sp1: "secondPoint ?s1 \<noteq> None"
    using assms by (auto simp: mouseMoveListener_def mousePositionWithinContainer_def)
  note fr = run_moves_frame [OF u1 sp1, of moves]
  from fr u1 have u2: "\<not> hasSelectedField (fields_st ?s2)" by simp
  have u3: "\<not> hasSelectedField (fields_st (commitNewZone ?s2 rel uid))"
    using u2 by (rule commitNewZone_unselected)
  have fp2: "firstPoint ?s2 = Some p"
    using fr assms(1) by (simp add: mouseMoveListener_firstPoint)
  have "fields_st (commitNewZone ?s2 rel uid) = deselectAll (fields_st s)"
    if "secondPoint ?s2 = Some q" "tooSmall \<lparr>a = p, b = q\<rparr>"
    using that fp2 u2 fr f1 by (simp add: commitNewZone_def)
  with f1 u1 u3 show ?thesis
    by (simp add: hasSelectedField_filter)
qed

text \<open>
  The spec's scenario: press at (0, 0) while a field is selected, moves to (3, 4)
  and (5, 5), release on the canvas.
\<close>

theorem move_during_drag_deselects_witness:
  "tooSmall \<lparr>a = \<lparr>x = 0, y = 0\<rparr>, b = \<lparr>x = 5, y = 5\<rparr>\<rparr>
   \<and> fields_st (mouseMoveListener \<lparr>rect_left = 0, rect_top = 0\<rparr>
      \<lparr>pageNumber = 1, firstPoint = Some \<lparr>x = 0, y = 0\<rparr>, secondPoint = None,
       fields_st = [\<lparr>page = 1, box = \<lparr>a = \<lparr>x = 5, y = 5\<rparr>, b = \<lparr>x = 90, y = 40\<rparr>\<rparr>,
                     id_field = ''u1'', selected = True\<rparr>]\<rparr>
      \<lparr>target = Some [''react-pdf__Page__canvas''], clientX = 3, clientY = 4\<rparr>)
     = [\<lparr>page = 1, box = \<lparr>a = \<lparr>x = 5, y = 5\<rparr>, b = \<lparr>x = 90, y = 40\<rparr>\<rparr>,
          id_field = ''u1'', selected = False\<rparr>]
   \<and> fields_st (commitNewZone (run_moves (mouseMoveListener \<lparr>rect_left = 0, rect_top = 0\<rparr>
      \<lparr>pageNumber = 1, firstPoint = Some \<lparr>x = 0, y = 0\<rparr>, secondPoint = None,
       fields_st = [\<lparr>page = 1, box = \<lparr>a = \<lparr>x = 5, y = 5\<rparr>, b = \<lparr>x = 90, y = 40\<rparr>\<rparr>,
                     id_field = ''u1'', selected = True\<rparr>]\<rparr>
      \<lparr>target = Some [''react-pdf__Page__canvas''], clientX = 3, clientY = 4\<rparr>)
        [(\<lparr>rect_left = 0, rect_top = 0\<rparr>,
          \<lparr>target = Some [''react-pdf__Page__canvas''], clientX = 5, clientY = 5\<rparr>)])
        \<lparr>target = Some [''react-pdf__Page__canvas''], clientX = 5, clientY = 5\<rparr> ''u2'')
     = [\<lparr>page = 1, box = \<lparr>a = \<lparr>x = 5, y = 5\<rparr>, b = \<lparr>x = 90, y = 40\<rparr>\<rparr>,
          id_field = ''u1'', selected = False\<rparr>]"
proof -
  let ?c = "\<lparr>rect_left = 0, rect_top = 0\<rparr>"
  let ?s = "\<lparr>pageNumber = 1, firstPoint = Some \<lparr>x = 0, y = 0\<rparr>, secondPoint = None,
       fields_st = [\<lparr>page = 1, box = \<lparr>a = \<lparr>x = 5, y = 5\<rparr>, b = \<lparr>x = 90, y = 40\<rparr>\<rparr>,
                     id_field = ''u1'', selected = True\<rparr>]\<rparr>"
  let ?ev = "\<lparr>target = Some [''react-pdf__Page__canvas''], clientX = 3, clientY = 4\<rparr>"
  let ?ev2 = "\<lparr>target = Some [''react-pdf__Page__canvas''], clientX = 5, clientY = 5\<rparr>"
  have h1: "firstPoint ?s = Some \<lparr>x = 0, y = 0\<rparr>" by simp
  have h2: "hasSelectedField (fields_st ?s)" by (simp add: hasSelectedField_def)
  have h3: "target ?ev \<noteq> None" by simp
  have t: "tooSmall \<lparr>a = \<lparr>x = 0, y = 0\<rparr>, b = \<lparr>x = 5, y = 5\<rparr>\<rparr>"
    by (simp add: tooSmall_def size_box_def)
  have sp: "secondPoint (run_moves (mouseMoveListener ?c ?s ?ev) [(?c, ?ev2)]) = Some \<lparr>x = 5, y = 5\<rparr>"
    by (simp add: run_moves_def mouseMoveListener_def mousePositionWithinContainer_def)
  from move_during_drag_deselects [OF h1 h2 h3, where c = ?c and moves = "[(?c, ?ev2)]"
      and q = "\<lparr>x = 5, y = 5\<rparr>" and rel = ?ev2 and uid = "''u2''"]
    t sp
  show ?thesis by (simp add: deselectAll_def)
qed

section \<open>Selection changes keep the sequence\<close>

text \<open>
  C10. The click on a field, the deselection on a move and the deselection on a
  release with a box that is too small keep the store's sequence: the number of
  fields, their order, and the id, page and box of each are as before; only
  \<open>selected\<close> flags may differ.
\<close>

theorem selection_changes_keep_sequence:
  "map (\<lambda>f. (id_field f, page f, box f)) (onClick fid fs) =
     map (\<lambda>f. (id_field f, page f, box f)) fs
   \<and> length (onClick fid fs) = length fs
   \<and> map (\<lambda>f. (id_field f, page f, box f)) (fields_st (mouseMoveListener c s ev)) =
       map (\<lambda>f. (id_field f, page f, box f)) (fields_st s)
   \<and> length (fields_st (mouseMoveListener c s ev)) = length (fields_st s)
   \<and> (firstPoint s = Some p \<and> secondPoint s = Some q \<and> tooSmall \<lparr>a = p, b = q\<rparr> \<longrightarrow>
        map (\<lambda>f. (id_field f, page f, box f)) (fields_st (commitNewZone s rel uid)) =
          map (\<lambda>f. (id_field f, page f, box f)) (fields_st s)
        \<and> length (fields_st (commitNewZone s rel uid)) = length (fields_st s))"
  by (simp add: onClick_def mouseMoveListener_def commitNewZone_def deselectAll_def
      split: option.splits)

text \<open>
  A small drag released on the canvas while a field is selected: the field is
  deselected and otherwise the same.
\<close>

theorem selection_changes_keep_sequence_witness:
  "tooSmall \<lparr>a = \<lparr>x = 0, y = 0\<rparr>, b = \<lparr>x = 5, y = 5\<rparr>\<rparr>
   \<and> fields_st (commitNewZone
        \<lparr>pageNumber = 1, firstPoint = Some \<lparr>x = 0, y = 0\<rparr>,
         secondPoint = Some \<lparr>x = 5, y = 5\<rparr>,
         fields_st = [\<lparr>page = 1, box = \<lparr>a = \<lparr>x = 5, y = 5\<rparr>, b = \<lparr>x = 90, y = 40\<rparr>\<rparr>,
                       id_field = ''u1'', selected = True\<rparr>]\<rparr>
        \<lparr>target = Some [''react-pdf__Page__canvas''], clientX = 60, clientY = 70\<rparr> ''u2'')
      = [\<lparr>page = 1, box = \<lparr>a = \<lparr>x = 5, y = 5\<rparr>, b = \<lparr>x = 90, y = 40\<rparr>\<rparr>,
           id_field = ''u1'', selected = False\<rparr>]
   \<and> map (\<lambda>f. (id_field f, page f, box f)) (fields_st (commitNewZone
        \<lparr>pageNumber = 1, firstPoint = Some \<lparr>x = 0, y = 0\<rparr>,
         secondPoint = Some \<lparr>x = 5, y = 5\<rparr>,
         fields_st = [\<lparr>page = 1, box = \<lparr>a = \<lparr>x = 5, y = 5\<rparr>, b = \<lparr>x = 90, y = 40\<rparr>\<rparr>,
                       id_field = ''u1'', selected = True\<rparr>]\<rparr>
        \<lparr>target = Some [''react-pdf__Page__canvas''], clientX = 60, clientY = 70\<rparr> ''u2''))
      = [(''u1'', 1, \<lparr>a = \<lparr>x = 5, y = 5\<rparr>, b = \<lparr>x = 90, y = 40\<rparr>\<rparr>)]"
proof -
  let ?s = "\<lparr>pageNumber = 1, firstPoint = Some \<lparr>x = 0, y = 0\<rparr>,
         secondPoint = Some \<lparr>x = 5, y = 5\<rparr>,
         fields_st = [\<lparr>page = 1, box = \<lparr>a = \<lparr>x = 5, y = 5\<rparr>, b = \<lparr>x = 90, y = 40\<rparr>\<rparr>,
                       id_field = ''u1'', selected = True\<rparr>]\<rparr>"
  let ?rel = "\<lparr>target = Some [''react-pdf__Page__canvas''], clientX = 60, clientY = 70\<rparr>"
  have t: "tooSmall \<lparr>a = \<lparr>x = 0, y = 0\<rparr>, b = \<lparr>x = 5, y = 5\<rparr>\<rparr>"
    by (simp add: tooSmall_def size_box_def)
  have h: "firstPoint ?s = Some \<lparr>x = 0, y = 0\<rparr> \<and> secondPoint ?s = Some \<lparr>x = 5, y = 5\<rparr>
      \<and> tooSmall \<lparr>a = \<lparr>x = 0, y = 0\<rparr>, b = \<lparr>x = 5, y = 5\<rparr>\<rparr>"
    using t by simp
  have r: "fields_st (commitNewZone ?s ?rel ''u2'') =
      [\<lparr>page = 1, box = \<lparr>a = \<lparr>x = 5, y = 5\<rparr>, b = \<lparr>x = 90, y = 40\<rparr>\<rparr>,
           id_field = ''u1'', selected = False\<rparr>]"
    using t by (simp add: commitNewZone_def hasSelectedField_def deselectAll_def)
  from selection_changes_keep_sequence [where s = ?s and p = "\<lparr>x = 0, y = 0\<rparr>"
      and q = "\<lparr>x = 5, y = 5\<rparr>" and rel = ?rel and uid = "''u2''"]
    h r t
  show ?thesis by simp
qed

end
